theory Spec2Isabelle
  imports Complex_Main
begin

section \<open>Numeric conventions\<close>

text \<open>
  The program computes with Python floats.  They are embedded as exact real numbers:
  comparisons against the thresholds of the source are then exactly those of the program,
  while the rounding error of IEEE arithmetic is outside the model.  The operations
  below are the ones of Python that are not plain field arithmetic.  \<open>py_round\<close> and
  \<open>py_round1\<close> are exact where the argument is the program's own value: an integer or
  the exact value of a double.
\<close>

definition py_round :: "real \<Rightarrow> int" where
  \<comment> \<open>\<open>round(x)\<close>: the nearest integer, a tie going to the even neighbour.\<close>
  "py_round x =
     (let f = \<lfloor>x\<rfloor>; d = x - of_int f
      in if d < 1 / 2 then f else if 1 / 2 < d then f + 1 else if even f then f else f + 1)"

definition py_round1 :: "real \<Rightarrow> real" where
  \<comment> \<open>\<open>round(x, 1)\<close>: one decimal place, a tie going to the even last digit.\<close>
  "py_round1 x = of_int (py_round (x * 10)) / 10"

text \<open>
  Where the program rounds a double that it has computed, the exact value of the model is
  within rounding error of that double, and the two can fall on different sides of a
  decimal tie.  The model therefore keeps an enclosure: the set of the values that
  \<open>round(d, 1)\<close> can give for a double \<open>d\<close> within rounding error of \<open>x\<close>.  Away from a
  tie this is the single rounded value, near a tie both neighbouring tenths, and for a
  magnitude of a million or more the model does not follow the rounding at all.
\<close>

definition near_tie :: "real \<Rightarrow> bool" where
  "near_tie x = (\<bar>x * 10 - of_int \<lfloor>x * 10\<rfloor> - 1 / 2\<bar> \<le> 1 / 10 ^ 6)"

definition round1_double :: "real \<Rightarrow> real set" where
  "round1_double x =
     (if 10 ^ 6 \<le> \<bar>x\<bar> then UNIV
      else if near_tie x then {of_int \<lfloor>x * 10\<rfloor> / 10, (of_int \<lfloor>x * 10\<rfloor> + 1) / 10}
      else {py_round1 x})"

definition is_tenth :: "real \<Rightarrow> bool" where
  "is_tenth y = (of_int \<lfloor>y * 10\<rfloor> = y * 10)"

definition float_limit :: real where
  \<comment> \<open>The least magnitude that no longer rounds to a finite double.\<close>
  "float_limit = 2 ^ 1024 - 2 ^ 970"

definition py_mod :: "real \<Rightarrow> real \<Rightarrow> real" where
  \<comment> \<open>\<open>x % m\<close> on floats for a positive modulus: the result has the sign of \<open>m\<close>.\<close>
  "py_mod x m = x - m * of_int \<lfloor>x / m\<rfloor>"

section \<open>Positioning: tilt, azimuth and compass name\<close>

definition optimal_tilt :: "real \<Rightarrow> real" where
  \<comment> \<open>\<open>get_solar_data\<close>, the three statements that set \<open>optimal_tilt\<close>.\<close>
  "optimal_tilt lat =
     (let t = min \<bar>lat\<bar> 35
      in if t \<le> 25 then t + 2 else if 50 < t then t - 3 else t)"

definition optimal_azimuth :: "real \<Rightarrow> real" where
  "optimal_azimuth lat = (if 0 \<le> lat then 180 else 0)"

definition get_direction_name :: "real \<Rightarrow> string" where
  "get_direction_name azimuth =
     (let az = py_mod azimuth 360
      in if az < 22.5 \<or> 337.5 \<le> az then ''North''
         else if az < 67.5 then ''North-East''
         else if az < 112.5 then ''East''
         else if az < 157.5 then ''South-East''
         else if az < 202.5 then ''South''
         else if az < 247.5 then ''South-West''
         else if az < 292.5 then ''West''
         else if az < 337.5 then ''North-West''
         else ''North'')"

text \<open>
  The compass mapping as the specification words it: eight bins of width 45 centred on
  the compass points, with wrap-around at 0/360.
\<close>

definition compass_points :: "string list" where
  "compass_points =
     [''North'', ''North-East'', ''East'', ''South-East'',
      ''South'', ''South-West'', ''West'', ''North-West'']"

definition compass_bin :: "real \<Rightarrow> nat" where
  "compass_bin azimuth = nat (\<lfloor>(py_mod azimuth 360 + 22.5) / 45\<rfloor> mod 8)"

section \<open>Irradiance\<close>

definition calculate_realistic_annual_poa :: "real \<Rightarrow> real \<Rightarrow> real \<Rightarrow> real" where
  "calculate_realistic_annual_poa latitude longitude tilt =
     (let lat_abs = \<bar>latitude\<bar>;
          base_poa =
            (if lat_abs < 10 then 1900
             else if lat_abs < 20 then 1750
             else if lat_abs < 30 then 1800
             else if lat_abs < 45 then 1500
             else if lat_abs < 60 then 1200
             else 800);
          base_poa =
            (if 8 \<le> lat_abs \<and> lat_abs \<le> 37 \<and> 68 \<le> longitude \<and> longitude \<le> 97
             then (if longitude < 77 \<or> 92 < longitude then base_poa * 0.85 else base_poa * 0.90)
             else base_poa);
          optimal = min lat_abs 35;
          tilt_diff = \<bar>tilt - optimal\<bar>;
          tilt_penalty = max 0.75 (1 - 0.01 * tilt_diff)
      in base_poa * tilt_penalty)"

text \<open>
  The annual base as the specification words it: a table of latitude bands read from the
  top, then the regional correction of the monsoon band, then the tilt penalty.
\<close>

definition poa_bands :: "(real \<times> real) list" where
  "poa_bands = [(10, 1900), (20, 1750), (30, 1800), (45, 1500), (60, 1200)]"

fun band_lookup :: "(real \<times> real) list \<Rightarrow> real \<Rightarrow> real" where
  "band_lookup [] x = 800"
| "band_lookup ((bound, v) # rest) x = (if x < bound then v else band_lookup rest x)"

definition in_monsoon_band :: "real \<Rightarrow> real \<Rightarrow> bool" where
  "in_monsoon_band latitude longitude =
     (\<bar>latitude\<bar> \<in> {8..37} \<and> longitude \<in> {68..97})"

definition regional_factor :: "real \<Rightarrow> real \<Rightarrow> real" where
  "regional_factor latitude longitude =
     (if in_monsoon_band latitude longitude
      then (if longitude < 77 \<or> 92 < longitude then 0.85 else 0.90)
      else 1)"

definition pre_penalty_poa :: "real \<Rightarrow> real \<Rightarrow> real" where
  "pre_penalty_poa latitude longitude =
     band_lookup poa_bands \<bar>latitude\<bar> * regional_factor latitude longitude"

definition tilt_penalty_of :: "real \<Rightarrow> real \<Rightarrow> real" where
  "tilt_penalty_of latitude tilt = max 0.75 (1 - 0.01 * abs (tilt - min (abs latitude) 35))"

definition spec_tilt :: "real \<Rightarrow> real" where
  \<comment> \<open>The tilt as the specification's testable property words it, without the branch above 50.\<close>
  "spec_tilt latitude = min \<bar>latitude\<bar> 35 + (if min \<bar>latitude\<bar> 35 \<le> 25 then 2 else 0)"

definition monthly_factors :: "real \<Rightarrow> real \<Rightarrow> real list" where
  \<comment> \<open>\<open>_calculate_monthly_distribution\<close>: the template after the hemisphere rotation.\<close>
  "monthly_factors latitude longitude =
     (let lat_abs = \<bar>latitude\<bar>;
          is_monsoon_region = (8 \<le> lat_abs \<and> lat_abs \<le> 37 \<and> 68 \<le> longitude \<and> longitude \<le> 97);
          fs = (if is_monsoon_region
                then [0.90, 0.85, 1.05, 1.10, 1.05, 0.60, 0.50, 0.55, 0.70, 0.95, 0.90, 0.90]
                else if lat_abs < 23.5
                then [0.84, 0.86, 0.89, 0.88, 0.85, 0.78, 0.80, 0.83, 0.85, 0.87, 0.87, 0.85]
                else if lat_abs < 45
                then [0.63, 0.71, 0.84, 0.95, 1.06, 1.08, 1.09, 1.03, 0.88, 0.76, 0.62, 0.55]
                else [0.35, 0.55, 0.82, 1.08, 1.28, 1.35, 1.33, 1.15, 0.88, 0.65, 0.40, 0.26])
      in if latitude < 0 then drop 6 fs @ take 6 fs else fs)"

definition calculate_monthly_distribution :: "real \<Rightarrow> real \<Rightarrow> real \<Rightarrow> real list" where
  "calculate_monthly_distribution latitude longitude annual_total =
     (let fs = monthly_factors latitude longitude;
          total_factor = sum_list fs;
          monthly_fractions = map (\<lambda>f. f / total_factor) fs;
          monthly_values = map (\<lambda>frac. annual_total * frac) monthly_fractions;
          actual_sum = sum_list monthly_values
      in if 0 < actual_sum
         then (let scale = annual_total / actual_sum in map (\<lambda>v. v * scale) monthly_values)
         else monthly_values)"

definition efficiency_gain :: "real \<Rightarrow> real" where
  "efficiency_gain lat = min 25 (5 + \<bar>lat\<bar> * 0.3)"

section \<open>The weather collaborator\<close>

text \<open>
  A value of the decoded JSON document.  An object is the list of its items, each key
  occurring once.  \<open>PyNum\<close> holds an integer of any size or the exact value of a finite
  double; \<open>PyNonFinite\<close> is what the decoder makes of \<open>NaN\<close>, \<open>Infinity\<close> and of a
  literal beyond the double range.
\<close>

datatype nonfinite = PosInf | NegInf | NaN

datatype py =
    PyNone
  | PyBool bool
  | PyNum real
  | PyNonFinite nonfinite
  | PyStr string
  | PyList "py list"
  | PyDict "(string \<times> py) list"

text \<open>
  What \<open>requests.get\<close> meets: a transport failure (connection error, timeout), or a
  reply with its status code and its body, \<open>None\<close> when the body is not JSON.
\<close>

datatype http_outcome = TransportFailure | Reply nat "py option"

datatype py_error = TypeError | AttributeError | ValueError | OverflowError

datatype pyfloat = Finite real | NonFinite nonfinite

record weather =
  temperature :: pyfloat
  humidity :: int
  cloud_cover :: int
  weather_description :: string
  wind_speed :: pyfloat
  visibility :: pyfloat
  weather_icon :: string
  raw_data :: py

fun truthy :: "py \<Rightarrow> bool" where
  "truthy PyNone = False"
| "truthy (PyBool b) = b"
| "truthy (PyNum x) = (x \<noteq> 0)"
| "truthy (PyNonFinite x) = True"
| "truthy (PyStr s) = (s \<noteq> [])"
| "truthy (PyList xs) = (xs \<noteq> [])"
| "truthy (PyDict d) = (d \<noteq> [])"

definition dict_get :: "(string \<times> py) list \<Rightarrow> string \<Rightarrow> py \<Rightarrow> py" where
  \<comment> \<open>\<open>d.get(k, default)\<close>\<close>
  "dict_get d k dflt = (case map_of d k of Some v \<Rightarrow> v | None \<Rightarrow> dflt)"

fun py_eq_num :: "py \<Rightarrow> real \<Rightarrow> bool" where
  \<comment> \<open>\<open>v == n\<close> for a number \<open>n\<close>: booleans compare as 0 and 1, other types are unequal.\<close>
  "py_eq_num (PyNum x) n = (x = n)"
| "py_eq_num (PyBool b) n = ((if b then 1 else 0) = n)"
| "py_eq_num _ n = False"

definition py_in :: "py \<Rightarrow> real list \<Rightarrow> bool" where
  "py_in v ns = list_ex (py_eq_num v) ns"

definition get_weather_description_and_icon :: "py \<Rightarrow> py \<Rightarrow> string \<times> string" where
  "get_weather_description_and_icon wmo_code is_day =
     (let day_night = (if py_eq_num is_day 1 then ''d'' else ''n'')
      in if py_eq_num wmo_code 0 then (''Clear sky'', ''01'' @ day_night)
         else if py_in wmo_code [1, 2, 3] then (''Partly cloudy'', ''02'' @ day_night)
         else if py_in wmo_code [45, 48] then (''Fog'', ''50d'')
         else if py_in wmo_code [51, 53, 55, 56, 57] then (''Drizzle'', ''09'' @ day_night)
         else if py_in wmo_code [61, 63, 65, 66, 67] then (''Rain'', ''10'' @ day_night)
         else if py_in wmo_code [71, 73, 75, 77] then (''Snow'', ''13'' @ day_night)
         else if py_in wmo_code [80, 81, 82, 85, 86] then (''Rain showers'', ''09'' @ day_night)
         else if py_in wmo_code [95, 96, 99] then (''Thunderstorm'', ''11'' @ day_night)
         else (''Unknown'', ''01'' @ day_night))"

fun round_value :: "py \<Rightarrow> py_error + int" where
  \<comment> \<open>
    \<open>round(v)\<close> on a decoded value: only numbers (and booleans) can be rounded, and
    \<open>NaN\<close> and the infinities have no integer.
  \<close>
  "round_value (PyNum x) = Inr (py_round x)"
| "round_value (PyBool b) = Inr (if b then 1 else 0)"
| "round_value (PyNonFinite NaN) = Inl ValueError"
| "round_value (PyNonFinite _) = Inl OverflowError"
| "round_value _ = Inl TypeError"

fun round1_value :: "py \<Rightarrow> py_error + pyfloat" where
  \<comment> \<open>\<open>round(v, 1)\<close>: \<open>NaN\<close> and the infinities are returned as they are.\<close>
  "round1_value (PyNum x) = Inr (Finite (py_round1 x))"
| "round1_value (PyBool b) = Inr (Finite (if b then 1 else 0))"
| "round1_value (PyNonFinite x) = Inr (NonFinite x)"
| "round1_value _ = Inl TypeError"

definition build_weather :: "py \<Rightarrow> (string \<times> py) list \<Rightarrow> py_error + weather" where
  \<comment> \<open>The dictionary returned by \<open>get_weather_data\<close>, its entries evaluated in order.\<close>
  "build_weather data current =
     (let wmo_code = dict_get current ''weather_code'' (PyNum 0);
          is_day = dict_get current ''is_day'' (PyNum 1);
          (description, icon) = get_weather_description_and_icon wmo_code is_day
      in case round1_value (dict_get current ''temperature_2m'' PyNone) of
           Inl e \<Rightarrow> Inl e
         | Inr t \<Rightarrow>
        (case round_value (dict_get current ''relative_humidity_2m'' PyNone) of
           Inl e \<Rightarrow> Inl e
         | Inr h \<Rightarrow>
        (case round_value (dict_get current ''cloud_cover'' PyNone) of
           Inl e \<Rightarrow> Inl e
         | Inr c \<Rightarrow>
        (case round1_value (dict_get current ''wind_speed_10m'' PyNone) of
           Inl e \<Rightarrow> Inl e
         | Inr w \<Rightarrow>
             Inr \<lparr>temperature = t, humidity = h, cloud_cover = c,
                  weather_description = description, wind_speed = w,
                  visibility = Finite 10, weather_icon = icon, raw_data = data\<rparr>))))"

definition get_weather_data :: "http_outcome \<Rightarrow> py_error + weather option" where
  \<comment> \<open>
    \<open>Inr None\<close> is the \<open>None\<close> the function returns, \<open>Inl e\<close> an exception that
    leaves it: the \<open>except\<close> clause catches \<open>RequestException\<close> only, which covers
    the transport failure, the \<open>HTTPError\<close> of \<open>raise_for_status\<close> (status 400 to 599)
    and the decoding error of \<open>response.json()\<close>.
  \<close>
  "get_weather_data outcome =
     (case outcome of
        TransportFailure \<Rightarrow> Inr None
      | Reply status body \<Rightarrow>
          if 400 \<le> status \<and> status < 600 then Inr None
          else (case body of
                  None \<Rightarrow> Inr None
                | Some data \<Rightarrow>
                    (case data of
                       PyDict d \<Rightarrow>
                         (let current = dict_get d ''current'' (PyDict [])
                          in if \<not> truthy current then Inr None
                             else (case current of
                                     PyDict c \<Rightarrow>
                                       (case build_weather data c of
                                          Inl e \<Rightarrow> Inl e
                                        | Inr w \<Rightarrow> Inr (Some w))
                                   | _ \<Rightarrow> Inl AttributeError))
                     | _ \<Rightarrow> Inl AttributeError)))"

section \<open>Rendering numbers into text\<close>

text \<open>
  Strings are sequences of bytes, a character beyond ASCII being its UTF-8 encoding.  The
  renderings of a float (\<open>:.1f\<close>, \<open>:.0f\<close>, \<open>int(round(x))\<close>) follow the exact value of
  the model; where that value lies within rounding error of a decimal tie, the text of
  the program can show the neighbouring digit.
\<close>

fun digits_of :: "nat \<Rightarrow> string" where
  "digits_of n =
     (if n < 10 then [''0123456789'' ! n]
      else digits_of (n div 10) @ [''0123456789'' ! (n mod 10)])"

declare digits_of.simps [simp del]

definition str_int :: "int \<Rightarrow> string" where
  \<comment> \<open>\<open>str(i)\<close> of an integer, as an f-string renders it\<close>
  "str_int i = (if i < 0 then ''-'' @ digits_of (nat (- i)) else digits_of (nat i))"

definition sign_prefix :: "real \<Rightarrow> string" where
  "sign_prefix x = (if x < 0 then ''-'' else [])"

definition fmt_0f :: "real \<Rightarrow> string" where
  \<comment> \<open>\<open>f"{x:.0f}"\<close>\<close>
  "fmt_0f x = sign_prefix x @ digits_of (nat (py_round \<bar>x\<bar>))"

definition fmt_1f :: "real \<Rightarrow> string" where
  \<comment> \<open>\<open>f"{x:.1f}"\<close>\<close>
  "fmt_1f x =
     (let n = nat (py_round (\<bar>x\<bar> * 10))
      in sign_prefix x @ digits_of (n div 10) @ ''.'' @ digits_of (n mod 10))"

definition lower_char :: "char \<Rightarrow> char" where
  "lower_char c =
     (case map_of (zip ''ABCDEFGHIJKLMNOPQRSTUVWXYZ'' ''abcdefghijklmnopqrstuvwxyz'') c of
        Some l \<Rightarrow> l
      | None \<Rightarrow> c)"

definition lower :: "string \<Rightarrow> string" where
  "lower s = map lower_char s"

definition degree_mark :: string where
  \<comment> \<open>The two characters U+00AC U+221E that follow an angle in the source's literals.\<close>
  "degree_mark = [CHR 0xC2, CHR 0xAC, CHR 0xE2, CHR 0x88, CHR 0x9E]"

definition square_mark :: string where
  \<comment> \<open>The two characters U+00AC U+2264 that follow \<open>kWh/m\<close> in the source's literals.\<close>
  "square_mark = [CHR 0xC2, CHR 0xAC, CHR 0xE2, CHR 0x89, CHR 0xA4]"

section \<open>The request handler\<close>

record SolarRequest =
  latitude :: real
  longitude :: real
  include_weather :: "bool option"

text \<open>
  The response.  The four figures that the handler computes in floating point and then
  rounds to one decimal place are kept as enclosures (\<open>round1_double\<close>); the azimuth is
  one of the constants 180.0 and 0.0, whose rounding is exact.
\<close>

record solar_response =
  r_latitude :: real
  r_longitude :: real
  r_optimal_tilt :: "real set"
  r_optimal_azimuth :: real
  r_annual_irradiance :: "real set"
  r_efficiency_gain :: "real set"
  r_monthly_data :: "(string \<times> real set) list"
  r_peak_month :: string
  r_low_month :: string
  r_tips :: "string list"
  r_summary_text :: string
  r_orientation_text :: string
  r_weather_adjusted :: "bool option"
  r_weather_data :: "weather option"

datatype http_error = HTTPException nat py_error

definition months_abbr :: "string list" where
  "months_abbr = [''Jan'', ''Feb'', ''Mar'', ''Apr'', ''May'', ''Jun'',
                  ''Jul'', ''Aug'', ''Sep'', ''Oct'', ''Nov'', ''Dec'']"

definition months_full :: "string list" where
  "months_full = [''January'', ''February'', ''March'', ''April'', ''May'', ''June'',
                  ''July'', ''August'', ''September'', ''October'', ''November'', ''December'']"

definition argmax :: "real list \<Rightarrow> nat" where
  \<comment> \<open>\<open>np.argmax\<close>: the first index of the greatest value\<close>
  "argmax xs = length (takeWhile (\<lambda>v. v \<noteq> fold max xs (hd xs)) xs)"

definition argmin :: "real list \<Rightarrow> nat" where
  "argmin xs = length (takeWhile (\<lambda>v. v \<noteq> fold min xs (hd xs)) xs)"

definition weather_adjust :: "real \<Rightarrow> real \<Rightarrow> weather option \<Rightarrow> real \<times> real" where
  \<comment> \<open>
    The pair \<open>(weather_adjusted_efficiency, weather_adjusted_poa)\<close>: the initial values,
    overwritten when \<open>weather_data\<close> is a dictionary.  The integers \<open>cloud_cover\<close> and
    \<open>humidity\<close> are unbounded; where they leave the double range the program raises,
    which \<open>adjustment_error\<close> below sets apart.
  \<close>
  "weather_adjust eff_gain annual_poa weather_data =
     (case weather_data of
        None \<Rightarrow> (eff_gain, annual_poa)
      | Some w \<Rightarrow>
          (let cloud_penalty = (of_int (cloud_cover w) / 100) * 0.3;
               humidity_penalty = max 0 ((of_int (humidity w) - 60) / 100) * 0.1
           in (eff_gain * (1 - cloud_penalty - humidity_penalty),
               annual_poa * (1 - cloud_penalty * 0.5))))"

definition cloud_cover_tip :: "int \<Rightarrow> string" where
  "cloud_cover_tip c = ''High cloud cover ('' @ str_int c @ ''%) may reduce current efficiency''"

definition humidity_tip :: string where
  "humidity_tip = ''High humidity - ensure proper ventilation around panels''"

definition optimal_tilt_tip :: "real \<Rightarrow> string" where
  "optimal_tilt_tip tilt =
     ''Optimal tilt angle of '' @ fmt_1f tilt @ degree_mark @ '' is ideal for your latitude''"

definition build_tips :: "real \<Rightarrow> real \<Rightarrow> weather option \<Rightarrow> string list" where
  \<comment> \<open>The list \<open>tips\<close> as it stands before the final slice \<open>tips[:6]\<close>.\<close>
  "build_tips lat tilt weather_data =
     (let abs_lat = \<bar>lat\<bar>;
          tips0 =
            (if abs_lat < 23.5
             then [''Your tropical location receives consistent solar irradiance year-round'',
                   ''Consider tracking systems for maximum efficiency due to high sun angles'']
             else if abs_lat < 40
             then [''Seasonal adjustment of tilt angle can increase annual energy yield by 3-5%'',
                   ''Consider east-west orientation to reduce afternoon overheating'']
             else [''Winter conditions may impact performance - ensure easy cleaning access'',
                   ''Consider higher mounting to maximize winter sun exposure'']);
          tips1 = tips0 @
            [''Regular cleaning improves efficiency by 2-5%'',
             ''Avoid shading between 10 AM - 2 PM for optimal performance'',
             optimal_tilt_tip tilt]
      in case weather_data of
           None \<Rightarrow> tips1
         | Some w \<Rightarrow>
             (let tips2 = (if 70 < cloud_cover w then cloud_cover_tip (cloud_cover w) # tips1
                           else tips1)
              in if 80 < humidity w then tips2 @ [humidity_tip] else tips2))"

definition solar_report :: "SolarRequest \<Rightarrow> weather option \<Rightarrow> solar_response" where
  \<comment> \<open>The body of \<open>get_solar_data\<close> once \<open>weather_data\<close> is known.\<close>
  "solar_report request weather_data =
     (let lat = latitude request;
          lng = longitude request;
          tilt = optimal_tilt lat;
          azimuth = optimal_azimuth lat;
          annual_poa = calculate_realistic_annual_poa lat lng tilt;
          (weather_adjusted_efficiency, weather_adjusted_poa) =
             weather_adjust (efficiency_gain lat) annual_poa weather_data;
          monthly_values = calculate_monthly_distribution lat lng weather_adjusted_poa;
          monthly_data =
            map (\<lambda>i. (months_abbr ! i, round1_double (monthly_values ! i))) [0..<12];
          max_idx = argmax monthly_values;
          min_idx = argmin monthly_values;
          direction = get_direction_name azimuth;
          summary_text =
            ''The solar array is optimally positioned at a '' @ fmt_1f tilt @ degree_mark
            @ '' tilt angle, facing '' @ lower direction
            @ '' (azimuth '' @ str_int (py_round azimuth) @ degree_mark @ ''). ''
            @ ''This configuration maximizes solar energy capture, delivering an estimated ''
            @ str_int (py_round weather_adjusted_poa) @ '' ''
            @ ''kilowatt-hours per square meter annually. ''
            @ ''Peak production occurs in '' @ months_full ! max_idx
            @ '' ('' @ fmt_0f (monthly_values ! max_idx) @ '' kWh/m'' @ square_mark @ ''), ''
            @ ''while '' @ months_full ! min_idx @ '' shows the lowest output (''
            @ fmt_0f (monthly_values ! min_idx) @ '' kWh/m'' @ square_mark @ '').'';
          tips = build_tips lat tilt weather_data
      in \<lparr>r_latitude = lat,
          r_longitude = lng,
          r_optimal_tilt = round1_double tilt,
          r_optimal_azimuth = py_round1 azimuth,
          r_annual_irradiance = round1_double weather_adjusted_poa,
          r_efficiency_gain = round1_double weather_adjusted_efficiency,
          r_monthly_data = monthly_data,
          r_peak_month = months_full ! max_idx,
          r_low_month = months_full ! min_idx,
          r_tips = take 6 tips,
          r_summary_text = summary_text,
          r_orientation_text =
            ''Face panels toward '' @ direction @ '' ('' @ str_int (py_round azimuth)
            @ degree_mark @ '') at '' @ fmt_1f tilt @ degree_mark @ '' tilt'',
          r_weather_adjusted = include_weather request,
          r_weather_data = weather_data\<rparr>)"

definition adjustment_error :: "SolarRequest \<Rightarrow> weather option \<Rightarrow> py_error option" where
  \<comment> \<open>
    The places where the body raises on a number beyond the double range: the true
    division of the integer \<open>cloud_cover\<close> by 100, that of \<open>humidity - 60\<close> by 100, and
    \<open>int(round(weather_adjusted_poa))\<close> in the summary once the product has overflowed
    to an infinity.
  \<close>
  "adjustment_error request weather_data =
     (case weather_data of
        None \<Rightarrow> None
      | Some w \<Rightarrow>
          (let lat = latitude request;
               annual_poa = calculate_realistic_annual_poa lat (longitude request)
                              (optimal_tilt lat)
           in if float_limit \<le> \<bar>of_int (cloud_cover w) / 100\<bar> then Some OverflowError
              else if float_limit \<le> \<bar>(of_int (humidity w) - 60) / 100\<bar> then Some OverflowError
              else if float_limit
                        \<le> \<bar>snd (weather_adjust (efficiency_gain lat) annual_poa weather_data)\<bar>
              then Some OverflowError
              else None))"

definition get_solar_data :: "SolarRequest \<Rightarrow> http_outcome \<Rightarrow> http_error + solar_response" where
  \<comment> \<open>
    The handler of \<open>POST /api/solar-data\<close>.  The second argument is what the weather
    service answers, consulted only when \<open>include_weather\<close> is true.  Any exception of
    the body is turned into the status 500 by the outer \<open>except Exception\<close>.
  \<close>
  "get_solar_data request outcome =
     (if include_weather request = Some True
      then (case get_weather_data outcome of
              Inl e \<Rightarrow> Inl (HTTPException 500 e)
            | Inr weather_data \<Rightarrow>
                (case adjustment_error request weather_data of
                   Some e \<Rightarrow> Inl (HTTPException 500 e)
                 | None \<Rightarrow> Inr (solar_report request weather_data)))
      else Inr (solar_report request None))"

section \<open>Sample inputs\<close>

definition delhi_request :: SolarRequest where
  "delhi_request = \<lparr>latitude = 28.6, longitude = 77.2, include_weather = Some True\<rparr>"

definition cloudy_reply :: http_outcome where
  "cloudy_reply =
     Reply 200 (Some (PyDict [(''current'', PyDict
       [(''weather_code'', PyNum 3), (''is_day'', PyNum 1), (''temperature_2m'', PyNum 21.375),
        (''relative_humidity_2m'', PyNum 90), (''cloud_cover'', PyNum 80),
        (''wind_speed_10m'', PyNum 3.25)])]))"

definition cloudy_weather :: weather where
  "cloudy_weather =
     \<lparr>temperature = Finite 21.4, humidity = 90, cloud_cover = 80,
      weather_description = ''Partly cloudy'', wind_speed = Finite 3.2, visibility = Finite 10,
      weather_icon = ''02d'',
      raw_data = PyDict [(''current'', PyDict
       [(''weather_code'', PyNum 3), (''is_day'', PyNum 1), (''temperature_2m'', PyNum 21.375),
        (''relative_humidity_2m'', PyNum 90), (''cloud_cover'', PyNum 80),
        (''wind_speed_10m'', PyNum 3.25)])]\<rparr>"

definition partial_reply :: http_outcome where
  \<comment> \<open>A reply with status 200 whose \<open>current\<close> block lacks the measurements.\<close>
  "partial_reply =
     Reply 200 (Some (PyDict [(''current'', PyDict
       [(''weather_code'', PyNum 3), (''is_day'', PyNum 1)])]))"

section \<open>Properties of the rounding enclosure\<close>

lemma py_round_close: "\<bar>of_int (py_round x) - x\<bar> \<le> 1 / 2"
proof -
  have "of_int \<lfloor>x\<rfloor> \<le> x" and "x < of_int \<lfloor>x\<rfloor> + 1"
    by linarith+
  then show ?thesis
    by (auto simp: py_round_def Let_def)
qed

lemma py_round1_close: "\<bar>py_round1 x - x\<bar> \<le> 1 / 20"
  using py_round_close [of "x * 10"] by (simp add: py_round1_def field_simps)

lemma is_tenth_of_int: "is_tenth (of_int k / 10)"
  by (simp add: is_tenth_def)

lemma round1_double_nonempty: "round1_double x \<noteq> {}"
  by (simp add: round1_double_def)

lemma round1_double_away_from_tie:
  "\<bar>x\<bar> < 10 ^ 6 \<Longrightarrow> \<not> near_tie x \<Longrightarrow> round1_double x = {py_round1 x}"
  by (simp add: round1_double_def)

lemma round1_double_sound:
  assumes "\<bar>x\<bar> < 10 ^ 6" and "y \<in> round1_double x"
  shows "is_tenth y \<and> \<bar>y - x\<bar> \<le> 1 / 20 + 1 / 10 ^ 7"
proof (cases "near_tie x")
  case False
  with assms have y: "y = py_round1 x"
    by (simp add: round1_double_def)
  have "is_tenth (py_round1 x)"
    unfolding py_round1_def by (rule is_tenth_of_int)
  moreover have "\<bar>py_round1 x - x\<bar> \<le> 1 / 20 + 1 / 10 ^ 7"
    using py_round1_close [of x] by simp
  ultimately show ?thesis
    unfolding y by (rule conjI)
next
  case True
  let ?f = "\<lfloor>x * 10\<rfloor>"
  from True have "\<bar>x * 10 - of_int ?f - 1 / 2\<bar> \<le> 1 / 10 ^ 6"
    by (simp add: near_tie_def)
  then have tie: "x * 10 - of_int ?f \<le> 1 / 2 + 1 / 10 ^ 6"
    "1 / 2 - 1 / 10 ^ 6 \<le> x * 10 - of_int ?f"
    by linarith+
  from True assms have "y = of_int ?f / 10 \<or> y = of_int (?f + 1) / 10"
    by (simp add: round1_double_def)
  then show ?thesis
  proof
    assume y: "y = of_int ?f / 10"
    have "\<bar>of_int ?f / 10 - x\<bar> \<le> 1 / 20 + 1 / 10 ^ 7"
      using tie by (simp add: abs_le_iff field_simps)
    with y show ?thesis
      by (simp only: is_tenth_of_int simp_thms)
  next
    assume y: "y = of_int (?f + 1) / 10"
    have "\<bar>of_int (?f + 1) / 10 - x\<bar> \<le> 1 / 20 + 1 / 10 ^ 7"
      using tie by (simp add: abs_le_iff field_simps)
    with y show ?thesis
      by (simp only: is_tenth_of_int simp_thms)
  qed
qed

lemma float_limit_large: "10 ^ 6 < float_limit"
  by (simp add: float_limit_def)

section \<open>Properties of the handler's tilt\<close>

lemma optimal_tilt_spec: "optimal_tilt lat = spec_tilt lat"
  by (auto simp: optimal_tilt_def spec_tilt_def Let_def min_def)

lemma spec_tilt_range: "0 \<le> spec_tilt lat \<and> spec_tilt lat \<le> 35"
  by (auto simp: spec_tilt_def min_def)

lemma report_tilt:
  "r_optimal_tilt (solar_report request wd) = round1_double (optimal_tilt (latitude request))"
  by (simp add: solar_report_def Let_def split: prod.splits)

lemma get_solar_data_cases:
  assumes "get_solar_data request outcome = Inr r"
  obtains wd where "r = solar_report request wd"
  using assms by (auto simp: get_solar_data_def split: if_splits sum.splits option.splits)

lemma get_solar_data_no_weather:
  "include_weather request \<noteq> Some True \<Longrightarrow>
   get_solar_data request outcome = Inr (solar_report request None)"
  by (simp add: get_solar_data_def)

text \<open>
  At latitude 7.95 the exact tilt 9.95 is a decimal tie: the enclosure holds both 9.9,
  which the program returns there, and 10.
\<close>

lemma tilt_enclosure_at_tie:
  "r_optimal_tilt (solar_report \<lparr>latitude = 7.95, longitude = 0, include_weather = None\<rparr> None)
     = {9.9, 10}"
  by (simp add: report_tilt optimal_tilt_def round1_double_def near_tie_def Let_def)

text \<open>
  Claim C1, as the code has it.  The tilt computed by the handler equals
  \<open>min(|latitude|, 35)\<close> plus 2 when that minimum is at most 25 and plus 0 otherwise, for
  every latitude, so the branch "above 50 subtract 3" never changes it.  The field
  \<open>optimal_tilt\<close> of the response is this value as \<open>round(x, 1)\<close> leaves it: a multiple of
  one tenth within 0.05 of it, up to the rounding error of the float addition, and the
  half-even rounding of it wherever it is not within that error of a decimal tie.
\<close>

theorem returned_tilt_is_rounded_spec_tilt:
  assumes "get_solar_data request outcome = Inr r"
  shows "optimal_tilt (latitude request) = spec_tilt (latitude request)
       \<and> r_optimal_tilt r \<noteq> {}
       \<and> (\<forall>y \<in> r_optimal_tilt r.
             is_tenth y \<and> \<bar>y - spec_tilt (latitude request)\<bar> \<le> 1 / 20 + 1 / 10 ^ 7)
       \<and> (\<not> near_tie (spec_tilt (latitude request))
             \<longrightarrow> r_optimal_tilt r = {py_round1 (spec_tilt (latitude request))})"
proof -
  let ?t = "spec_tilt (latitude request)"
  obtain wd where "r = solar_report request wd"
    using assms by (rule get_solar_data_cases)
  then have field: "r_optimal_tilt r = round1_double ?t"
    by (simp add: report_tilt optimal_tilt_spec)
  have small: "\<bar>?t\<bar> < 10 ^ 6"
    using spec_tilt_range [of "latitude request"] by simp
  have "is_tenth y \<and> \<bar>y - ?t\<bar> \<le> 1 / 20 + 1 / 10 ^ 7" if "y \<in> r_optimal_tilt r" for y
    using small that unfolding field by (rule round1_double_sound)
  moreover have "r_optimal_tilt r = {py_round1 ?t}" if "\<not> near_tie ?t"
    using small that unfolding field by (rule round1_double_away_from_tie)
  ultimately show ?thesis
    by (simp add: optimal_tilt_spec field round1_double_nonempty)
qed

theorem returned_tilt_is_rounded_spec_tilt_witness:
  "get_solar_data \<lparr>latitude = 10.123, longitude = 0, include_weather = Some False\<rparr>
       TransportFailure
     = Inr (solar_report \<lparr>latitude = 10.123, longitude = 0, include_weather = Some False\<rparr> None)
   \<and> \<not> near_tie (spec_tilt 10.123)
   \<and> r_optimal_tilt
        (solar_report \<lparr>latitude = 10.123, longitude = 0, include_weather = Some False\<rparr> None)
     = {12.1}"
  using returned_tilt_is_rounded_spec_tilt
    [of "\<lparr>latitude = 10.123, longitude = 0, include_weather = Some False\<rparr>" TransportFailure
        "solar_report \<lparr>latitude = 10.123, longitude = 0, include_weather = Some False\<rparr> None"]
  by (simp add: get_solar_data_no_weather spec_tilt_def near_tie_def py_round1_def py_round_def
        Let_def)

text \<open>
  Claim C1 as stated fails: at latitude 10.123 the formula of the claim gives 12.123,
  which is not a value the response can carry for \<open>optimal_tilt\<close> (it carries 12.1).
\<close>

theorem returned_tilt_not_exact_counterexample:
  "spec_tilt 10.123 \<notin> r_optimal_tilt (projr (get_solar_data
      \<lparr>latitude = 10.123, longitude = 0, include_weather = Some False\<rparr> TransportFailure))"
  by (simp add: get_solar_data_no_weather report_tilt optimal_tilt_def spec_tilt_def
        round1_double_def near_tie_def py_round1_def py_round_def Let_def)

section \<open>The fields of the response\<close>

lemma report_weather_data: "r_weather_data (solar_report request wd) = wd"
  by (simp add: solar_report_def Let_def split: prod.splits)

lemma report_efficiency_gain:
  "r_efficiency_gain (solar_report request wd)
     = round1_double (fst (weather_adjust (efficiency_gain (latitude request))
         (calculate_realistic_annual_poa (latitude request) (longitude request)
            (optimal_tilt (latitude request))) wd))"
  by (simp add: solar_report_def Let_def split: prod.splits)

lemma report_annual_irradiance:
  "r_annual_irradiance (solar_report request wd)
     = round1_double (snd (weather_adjust (efficiency_gain (latitude request))
         (calculate_realistic_annual_poa (latitude request) (longitude request)
            (optimal_tilt (latitude request))) wd))"
  by (simp add: solar_report_def Let_def split: prod.splits)

lemma report_monthly_data:
  "r_monthly_data (solar_report request wd)
     = map (\<lambda>i. (months_abbr ! i,
          round1_double (calculate_monthly_distribution (latitude request) (longitude request)
            (snd (weather_adjust (efficiency_gain (latitude request))
               (calculate_realistic_annual_poa (latitude request) (longitude request)
                  (optimal_tilt (latitude request))) wd)) ! i))) [0..<12]"
  by (simp add: solar_report_def Let_def split: prod.splits del: upt.simps)

section \<open>Properties of the annual irradiance\<close>

lemma band_lookup_poa:
  "band_lookup poa_bands x =
     (if x < 10 then 1900 else if x < 20 then 1750 else if x < 30 then 1800
      else if x < 45 then 1500 else if x < 60 then 1200 else 800)"
  by (simp add: poa_bands_def)

lemma annual_poa_factorised:
  "calculate_realistic_annual_poa lat lng tilt
     = pre_penalty_poa lat lng * tilt_penalty_of lat tilt"
  by (simp add: calculate_realistic_annual_poa_def pre_penalty_poa_def tilt_penalty_of_def
        band_lookup_poa regional_factor_def in_monsoon_band_def Let_def)

lemma tilt_low: "\<bar>lat\<bar> \<le> 25 \<Longrightarrow> optimal_tilt lat = min \<bar>lat\<bar> 35 + 2"
  by (simp add: optimal_tilt_def Let_def)

lemma tilt_high: "25 < \<bar>lat\<bar> \<Longrightarrow> optimal_tilt lat = min \<bar>lat\<bar> 35"
  by (simp add: optimal_tilt_def Let_def)

text \<open>
  Claim C3.  For every latitude, longitude and tilt, the annual figure is the tilt penalty
  times a base that is read from the band table on \<open>|latitude|\<close> (below 10: 1900, below
  20: 1750, below 30: 1800, below 45: 1500, below 60: 1200, otherwise 800) and, when
  \<open>|latitude|\<close> lies in [8, 37] and the longitude in [68, 97], multiplied by 0.85 if the
  longitude is below 77 or above 92 and by 0.90 otherwise.
\<close>

theorem annual_poa_base_by_band_and_region:
  "calculate_realistic_annual_poa lat lng tilt
     = band_lookup poa_bands \<bar>lat\<bar>
       * (if in_monsoon_band lat lng then (if lng < 77 \<or> 92 < lng then 0.85 else 0.90) else 1)
       * tilt_penalty_of lat tilt
   \<and> calculate_realistic_annual_poa lat lng (min \<bar>lat\<bar> 35) = pre_penalty_poa lat lng"
  by (simp add: annual_poa_factorised pre_penalty_poa_def regional_factor_def tilt_penalty_of_def)

theorem annual_poa_base_by_band_and_region_witness:
  "calculate_realistic_annual_poa 28.6 77.2 28.6 = 1800 * 0.90
   \<and> calculate_realistic_annual_poa 15 70 15 = 1750 * 0.85
   \<and> calculate_realistic_annual_poa 50 95 35 = 1200"
  using annual_poa_base_by_band_and_region [of "28.6" "77.2" "28.6"]
        annual_poa_base_by_band_and_region [of 15 70 15]
        annual_poa_base_by_band_and_region [of 50 95 35]
  by (simp add: poa_bands_def in_monsoon_band_def tilt_penalty_of_def)

text \<open>
  Claim C9.  For \<open>|latitude| \<le> 25\<close> the tilt handed to the annual estimate differs from
  \<open>min(|latitude|, 35)\<close> by exactly 2, the tilt penalty is exactly 0.98 and the annual
  irradiance is the base (band value times regional correction) times 0.98; for
  \<open>|latitude| > 25\<close> the penalty is exactly 1.  At latitude 0, longitude 0 the annual
  irradiance is 1862, also in the response.
\<close>

theorem low_latitude_tilt_penalty:
  "(\<bar>lat\<bar> \<le> 25 \<longrightarrow>
      optimal_tilt lat - min \<bar>lat\<bar> 35 = 2
    \<and> tilt_penalty_of lat (optimal_tilt lat) = 0.98
    \<and> calculate_realistic_annual_poa lat lng (optimal_tilt lat) = pre_penalty_poa lat lng * 0.98)
 \<and> (25 < \<bar>lat\<bar> \<longrightarrow>
      tilt_penalty_of lat (optimal_tilt lat) = 1
    \<and> calculate_realistic_annual_poa lat lng (optimal_tilt lat) = pre_penalty_poa lat lng)
 \<and> calculate_realistic_annual_poa 0 0 (optimal_tilt 0) = 1862
 \<and> r_annual_irradiance (projr (get_solar_data
      \<lparr>latitude = 0, longitude = 0, include_weather = Some False\<rparr> outcome)) = {1862}"
proof -
  have low: "tilt_penalty_of lat (optimal_tilt lat) = 0.98" if "\<bar>lat\<bar> \<le> 25"
    using that by (simp add: tilt_penalty_of_def tilt_low)
  have high: "tilt_penalty_of lat (optimal_tilt lat) = 1" if "25 < \<bar>lat\<bar>"
    using that by (simp add: tilt_penalty_of_def tilt_high)
  have zero: "calculate_realistic_annual_poa 0 0 (optimal_tilt 0) = 1862"
    by (simp add: calculate_realistic_annual_poa_def optimal_tilt_def Let_def)
  have resp: "r_annual_irradiance (projr (get_solar_data
      \<lparr>latitude = 0, longitude = 0, include_weather = Some False\<rparr> outcome)) = {1862}"
    by (simp add: get_solar_data_no_weather report_annual_irradiance weather_adjust_def zero
          round1_double_def near_tie_def py_round1_def py_round_def Let_def)
  show ?thesis
    using low high zero resp by (simp add: annual_poa_factorised tilt_low)
qed

theorem low_latitude_tilt_penalty_witness:
  "\<bar>12 :: real\<bar> \<le> 25
   \<and> calculate_realistic_annual_poa 12 70 (optimal_tilt 12) = 1750 * 0.85 * 0.98
   \<and> 25 < \<bar>- 33.9 :: real\<bar>
   \<and> calculate_realistic_annual_poa (- 33.9) 151.2 (optimal_tilt (- 33.9)) = 1500"
  using low_latitude_tilt_penalty [of 12 70 TransportFailure]
        low_latitude_tilt_penalty [of "- 33.9" "151.2" TransportFailure]
  by (simp add: pre_penalty_poa_def poa_bands_def regional_factor_def in_monsoon_band_def
        optimal_tilt_def Let_def)

section \<open>Properties of the monthly distribution\<close>

text \<open>
  Claim C6.  For every latitude below 0 and every longitude, the seasonal template used by
  the monthly distribution is the template selected for the opposite latitude (same
  longitude) rotated by 6 positions.
\<close>

theorem southern_template_is_rotated_northern:
  assumes "lat < 0"
  shows "monthly_factors lat lng = rotate 6 (monthly_factors (- lat) lng)"
  using assms by (simp add: monthly_factors_def Let_def rotate_drop_take)

theorem southern_template_is_rotated_northern_witness:
  "(- 33.9 :: real) < 0
   \<and> monthly_factors (- 33.9) 151.2 = rotate 6 (monthly_factors 33.9 151.2)
   \<and> monthly_factors (- 33.9) 151.2
       = [1.09, 1.03, 0.88, 0.76, 0.62, 0.55, 0.63, 0.71, 0.84, 0.95, 1.06, 1.08]"
  using southern_template_is_rotated_northern [of "- 33.9" "151.2"]
  by (simp add: monthly_factors_def Let_def)

lemma sum_scaled_fractions:
  fixes a T :: real
  shows "sum_list (map (\<lambda>f. a * f / T) fs) = a * sum_list fs / T"
  by (induction fs) (simp_all add: add_divide_distrib distrib_left)

lemma monthly_factors_shape:
  "length (monthly_factors lat lng) = 12
   \<and> 0 < sum_list (monthly_factors lat lng)
   \<and> (\<forall>f \<in> set (monthly_factors lat lng). 0 \<le> f)"
  by (simp add: monthly_factors_def Let_def)

lemma distribution_closed_form:
  "calculate_monthly_distribution lat lng a
     = map (\<lambda>f. a * (f / sum_list (monthly_factors lat lng))) (monthly_factors lat lng)"
proof -
  let ?fs = "monthly_factors lat lng"
  let ?vals = "map (\<lambda>f. a * (f / sum_list ?fs)) ?fs"
  have pos: "0 < sum_list ?fs"
    using monthly_factors_shape by blast
  have total: "sum_list ?vals = a"
    using pos by (simp add: sum_scaled_fractions)
  have unfolded: "calculate_monthly_distribution lat lng a
      = (if 0 < sum_list ?vals then map (\<lambda>v. v * (a / sum_list ?vals)) ?vals else ?vals)"
    by (simp add: calculate_monthly_distribution_def Let_def comp_def)
  have step: "calculate_monthly_distribution lat lng a
      = (if 0 < a then map (\<lambda>v. v * (a / a)) ?vals else ?vals)"
    by (simp only: unfolded total)
  show ?thesis
  proof (cases "0 < a")
    case True
    then have "a / a = 1"
      by simp
    with True show ?thesis
      by (simp only: step if_True mult_1_right map_ident)
  next
    case False
    then show ?thesis
      by (simp only: step if_False)
  qed
qed

text \<open>
  Claim C2.  For every latitude, longitude and annual total, the monthly distribution has
  12 values whose sum is the annual total passed in (exactly so in exact arithmetic, hence
  within the relative tolerance \<open>10\<^sup>-\<^sup>6\<close>), and every value is at least 0 when the annual
  total is at least 0.
\<close>


theorem monthly_values_sum_to_annual_total:
  "sum_list (calculate_monthly_distribution lat lng annual_total) = annual_total
   \<and> \<bar>sum_list (calculate_monthly_distribution lat lng annual_total) - annual_total\<bar>
       \<le> 1 / 10 ^ 6 * \<bar>annual_total\<bar>
   \<and> length (calculate_monthly_distribution lat lng annual_total) = 12
   \<and> (0 \<le> annual_total \<longrightarrow>
        (\<forall>v \<in> set (calculate_monthly_distribution lat lng annual_total). 0 \<le> v))"
proof -
  let ?fs = "monthly_factors lat lng"
  have shape: "length ?fs = 12" "0 < sum_list ?fs" "\<forall>f \<in> set ?fs. 0 \<le> f"
    using monthly_factors_shape by blast+
  have total: "sum_list (calculate_monthly_distribution lat lng annual_total) = annual_total"
    using shape(2) by (simp add: distribution_closed_form sum_scaled_fractions)
  have len: "length (calculate_monthly_distribution lat lng annual_total) = 12"
    using shape(1) by (simp add: distribution_closed_form)
  have nonneg: "0 \<le> v"
    if "0 \<le> annual_total" and "v \<in> set (calculate_monthly_distribution lat lng annual_total)" for v
  proof -
    from that(2) obtain f where "f \<in> set ?fs" and v: "v = annual_total * (f / sum_list ?fs)"
      by (auto simp: distribution_closed_form)
    with shape have "0 \<le> f / sum_list ?fs"
      by simp
    with that(1) have "0 \<le> annual_total * (f / sum_list ?fs)"
      by (rule mult_nonneg_nonneg)
    then show ?thesis
      by (simp only: v)
  qed
  show ?thesis
    using total len nonneg by simp
qed

theorem monthly_values_sum_to_annual_total_witness:
  "(0::real) \<le> 1500
   \<and> calculate_monthly_distribution (- 33.9) 151.2 1500
       = [2725 / 17, 2575 / 17, 2200 / 17, 1900 / 17, 1550 / 17, 1375 / 17,
          1575 / 17, 1775 / 17, 2100 / 17, 2375 / 17, 2650 / 17, 2700 / 17]
   \<and> sum_list (calculate_monthly_distribution (- 33.9) 151.2 1500) = 1500
   \<and> list_all (\<lambda>v. 0 \<le> v) (calculate_monthly_distribution (- 33.9) 151.2 1500)"
  using monthly_values_sum_to_annual_total [of "- 33.9" "151.2" 1500]
  by (simp add: calculate_monthly_distribution_def monthly_factors_def Let_def)

section \<open>Properties of the azimuth and the compass name\<close>

lemma py_mod_range: "0 \<le> py_mod x 360 \<and> py_mod x 360 < 360"
proof -
  have "of_int \<lfloor>x / 360\<rfloor> \<le> x / 360" and "x / 360 < of_int \<lfloor>x / 360\<rfloor> + 1"
    by linarith+
  then show ?thesis
    by (simp add: py_mod_def field_simps)
qed


lemma compass_lookup:
  fixes m :: real
  assumes m: "py_mod az 360 = m" and "0 \<le> m" and "m < 360"
  shows "get_direction_name az = compass_points ! nat (\<lfloor>(m + 22.5) / 45\<rfloor> mod 8)"
proof -
  have bin: "\<lfloor>(m + 22.5) / 45\<rfloor> = k"
    if "45 * of_int k - 22.5 \<le> m" and "m < 45 * of_int k + 22.5" for k
    using that by (intro floor_unique) (simp_all add: field_simps)
  consider "m < 22.5" | "22.5 \<le> m" "m < 67.5" | "67.5 \<le> m" "m < 112.5"
    | "112.5 \<le> m" "m < 157.5" | "157.5 \<le> m" "m < 202.5" | "202.5 \<le> m" "m < 247.5"
    | "247.5 \<le> m" "m < 292.5" | "292.5 \<le> m" "m < 337.5" | "337.5 \<le> m"
    by linarith
  then show ?thesis
  proof cases
    case 1
    with assms have "\<lfloor>(m + 22.5) / 45\<rfloor> = 0" by (intro bin) simp_all
    with 1 show ?thesis by (simp add: get_direction_name_def m compass_points_def)
  next
    case 2
    then have "\<lfloor>(m + 22.5) / 45\<rfloor> = 1" by (intro bin) simp_all
    with 2 show ?thesis by (simp add: get_direction_name_def m compass_points_def)
  next
    case 3
    then have "\<lfloor>(m + 22.5) / 45\<rfloor> = 2" by (intro bin) simp_all
    with 3 show ?thesis by (simp add: get_direction_name_def m compass_points_def)
  next
    case 4
    then have "\<lfloor>(m + 22.5) / 45\<rfloor> = 3" by (intro bin) simp_all
    with 4 show ?thesis by (simp add: get_direction_name_def m compass_points_def)
  next
    case 5
    then have "\<lfloor>(m + 22.5) / 45\<rfloor> = 4" by (intro bin) simp_all
    with 5 show ?thesis by (simp add: get_direction_name_def m compass_points_def)
  next
    case 6
    then have "\<lfloor>(m + 22.5) / 45\<rfloor> = 5" by (intro bin) simp_all
    with 6 show ?thesis by (simp add: get_direction_name_def m compass_points_def)
  next
    case 7
    then have "\<lfloor>(m + 22.5) / 45\<rfloor> = 6" by (intro bin) simp_all
    with 7 show ?thesis by (simp add: get_direction_name_def m compass_points_def)
  next
    case 8
    then have "\<lfloor>(m + 22.5) / 45\<rfloor> = 7" by (intro bin) simp_all
    with 8 show ?thesis by (simp add: get_direction_name_def m compass_points_def)
  next
    case 9
    with assms have "\<lfloor>(m + 22.5) / 45\<rfloor> = 8" by (intro bin) simp_all
    with 9 show ?thesis by (simp add: get_direction_name_def m compass_points_def)
  qed
qed

lemma direction_is_bin: "get_direction_name az = compass_points ! compass_bin az"
  using compass_lookup [of az "py_mod az 360"] py_mod_range [of az]
  by (simp add: compass_bin_def)

text \<open>
  Claim C5.  For every latitude the azimuth is 180 when the latitude is at least 0 and 0
  when it is below 0, also as the response carries it; for every azimuth the direction
  name is the entry of the eight compass points selected by the bin of width 45 centred on
  the points, with wrap-around at 0/360; azimuth 180 is named South and azimuth 0 North.
\<close>

theorem azimuth_and_compass_name:
  "optimal_azimuth lat = (if 0 \<le> lat then 180 else 0)
   \<and> r_optimal_azimuth (solar_report request wd) = (if 0 \<le> latitude request then 180 else 0)
   \<and> get_direction_name az = compass_points ! compass_bin az
   \<and> get_direction_name (optimal_azimuth lat) = (if 0 \<le> lat then ''South'' else ''North'')
   \<and> get_direction_name 180 = ''South''
   \<and> get_direction_name 0 = ''North''"
proof -
  have "r_optimal_azimuth (solar_report request wd)
      = py_round1 (optimal_azimuth (latitude request))"
    by (simp add: solar_report_def Let_def split: prod.splits)
  moreover have "py_round1 180 = 180" "py_round1 0 = 0"
    by (simp_all add: py_round1_def py_round_def Let_def)
  moreover have "get_direction_name 180 = ''South''" "get_direction_name 0 = ''North''"
    by (simp_all add: get_direction_name_def py_mod_def Let_def)
  ultimately show ?thesis
    by (simp add: optimal_azimuth_def direction_is_bin)
qed

section \<open>Properties of the weather adjustment\<close>

lemma get_solar_data_with_weather:
  "include_weather request = Some True \<Longrightarrow> get_weather_data outcome = Inr wd \<Longrightarrow>
   adjustment_error request wd = None \<Longrightarrow>
   get_solar_data request outcome = Inr (solar_report request wd)"
  by (simp add: get_solar_data_def)

lemma cloudy_reply_weather: "get_weather_data cloudy_reply = Inr (Some cloudy_weather)"
  by (simp add: get_weather_data_def cloudy_reply_def cloudy_weather_def build_weather_def
        dict_get_def get_weather_description_and_icon_def py_in_def
        py_round1_def py_round_def Let_def)

lemma delhi_poa:
  "calculate_realistic_annual_poa (latitude delhi_request) (longitude delhi_request)
     (optimal_tilt (latitude delhi_request)) = 1620"
  by (simp add: delhi_request_def calculate_realistic_annual_poa_def optimal_tilt_def Let_def)

lemma delhi_adjust:
  "weather_adjust (efficiency_gain (latitude delhi_request)) 1620 (Some cloudy_weather)
     = (9.9134, 1425.6)"
  by (simp add: delhi_request_def weather_adjust_def efficiency_gain_def cloudy_weather_def
        Let_def)

lemma cloudy_in_range: "adjustment_error delhi_request (Some cloudy_weather) = None"
proof -
  have "\<bar>of_int (cloud_cover cloudy_weather) / 100 :: real\<bar> < 10 ^ 6"
    and "\<bar>(of_int (humidity cloudy_weather) - 60) / 100 :: real\<bar> < 10 ^ 6"
    and "\<bar>1425.6 :: real\<bar> < 10 ^ 6"
    by (simp_all add: cloudy_weather_def)
  then show ?thesis
    using float_limit_large
    by (simp only: adjustment_error_def Let_def delhi_poa delhi_adjust option.case snd_conv)
       (simp add: not_le)
qed

lemma delhi_wants_weather: "include_weather delhi_request = Some True"
  by (simp add: delhi_request_def)

lemma cloudy_request:
  "get_solar_data delhi_request cloudy_reply
     = Inr (solar_report delhi_request (Some cloudy_weather))"
  using delhi_wants_weather cloudy_reply_weather cloudy_in_range
  by (rule get_solar_data_with_weather)

lemma partial_reply_weather: "get_weather_data partial_reply = Inl TypeError"
  by (simp add: get_weather_data_def partial_reply_def build_weather_def
        dict_get_def get_weather_description_and_icon_def py_in_def Let_def)

text \<open>
  The failures the handler does absorb: a transport failure, a status from 400 to 599, a
  body that is not JSON, and a JSON object whose \<open>current\<close> entry is missing or empty.
  The response is then the one computed without weather data.
\<close>

lemma weather_failure_absorbed:
  assumes "outcome = TransportFailure
     \<or> (\<exists>status body. outcome = Reply status body
          \<and> (400 \<le> status \<and> status < 600 \<or> body = None
              \<or> (\<exists>d. body = Some (PyDict d)
                    \<and> \<not> truthy (dict_get d ''current'' (PyDict [])))))"
  shows "get_weather_data outcome = Inr None
     \<and> get_solar_data request outcome = Inr (solar_report request None)"
proof -
  from assms have "get_weather_data outcome = Inr None"
    by (auto simp: get_weather_data_def Let_def)
  then show ?thesis
    by (simp add: get_solar_data_def adjustment_error_def)
qed

text \<open>
  Claim C4 asks that a request with \<open>include_weather\<close> true still succeeds, with
  \<open>weather_data\<close> null and unadjusted figures, when the reply of the weather service has
  a malformed \<open>current\<close> block.  The handler does not: a reply with status 200 whose
  \<open>current\<close> block carries no temperature makes \<open>round(None, 1)\<close> raise a
  \<open>TypeError\<close>, which is no \<open>RequestException\<close>, and the request ends with status 500.
\<close>

theorem malformed_current_block_fails_request:
  "get_solar_data delhi_request partial_reply = Inl (HTTPException 500 TypeError)"
  by (simp add: get_solar_data_def delhi_wants_weather partial_reply_weather)

text \<open>
  Claim C7.  For every request whose response carries weather data \<open>w\<close>, the adjusted
  efficiency is the efficiency gain times
  \<open>1 - (cloud_cover/100)*0.3 - max(0, (humidity-60)/100)*0.1\<close>, the adjusted annual
  irradiance is the annual figure times \<open>1 - (cloud_cover/100)*0.3*0.5\<close>, and the monthly
  data is the distribution of the adjusted annual total, not of the raw one.  The response
  carries each of these as \<open>round(x, 1)\<close> leaves it: for the two adjusted figures, below a
  million in magnitude, a multiple of one tenth within 0.05 of them up to rounding error.
\<close>

theorem weather_adjustment_formulas:
  assumes "get_solar_data request outcome = Inr r"
    and "r_weather_data r = Some w"
  shows
    "let lat = latitude request;
         lng = longitude request;
         annual_poa = calculate_realistic_annual_poa lat lng (optimal_tilt lat);
         cloud_penalty = (of_int (cloud_cover w) / 100) * 0.3;
         humidity_penalty = max 0 ((of_int (humidity w) - 60) / 100) * 0.1;
         adjusted_efficiency = efficiency_gain lat * (1 - cloud_penalty - humidity_penalty);
         adjusted_poa = annual_poa * (1 - cloud_penalty * 0.5)
     in weather_adjust (efficiency_gain lat) annual_poa (Some w)
          = (adjusted_efficiency, adjusted_poa)
      \<and> r_efficiency_gain r = round1_double adjusted_efficiency
      \<and> r_annual_irradiance r = round1_double adjusted_poa
      \<and> r_monthly_data r
          = map (\<lambda>i. (months_abbr ! i,
               round1_double (calculate_monthly_distribution lat lng adjusted_poa ! i))) [0..<12]
      \<and> (\<bar>adjusted_efficiency\<bar> < 10 ^ 6 \<longrightarrow>
            (\<forall>y \<in> r_efficiency_gain r.
               is_tenth y \<and> \<bar>y - adjusted_efficiency\<bar> \<le> 1 / 20 + 1 / 10 ^ 7))
      \<and> (\<bar>adjusted_poa\<bar> < 10 ^ 6 \<longrightarrow>
            (\<forall>y \<in> r_annual_irradiance r.
               is_tenth y \<and> \<bar>y - adjusted_poa\<bar> \<le> 1 / 20 + 1 / 10 ^ 7))"
proof -
  from assms(1) obtain wd where r: "r = solar_report request wd"
    by (rule get_solar_data_cases)
  with assms(2) have wd: "wd = Some w"
    by (simp add: report_weather_data)
  let ?lat = "latitude request"
  let ?lng = "longitude request"
  let ?poa = "calculate_realistic_annual_poa ?lat ?lng (optimal_tilt ?lat)"
  let ?cp = "(of_int (cloud_cover w) / 100) * 0.3 :: real"
  let ?hp = "max 0 ((of_int (humidity w) - 60) / 100) * 0.1 :: real"
  let ?ae = "efficiency_gain ?lat * (1 - ?cp - ?hp)"
  let ?ap = "?poa * (1 - ?cp * 0.5)"
  have adj: "weather_adjust (efficiency_gain ?lat) ?poa (Some w) = (?ae, ?ap)"
    by (simp only: weather_adjust_def Let_def option.case)
  have eff: "r_efficiency_gain r = round1_double ?ae"
    by (simp only: r wd report_efficiency_gain adj fst_conv)
  have ann: "r_annual_irradiance r = round1_double ?ap"
    by (simp only: r wd report_annual_irradiance adj snd_conv)
  have mon: "r_monthly_data r
      = map (\<lambda>i. (months_abbr ! i,
           round1_double (calculate_monthly_distribution ?lat ?lng ?ap ! i))) [0..<12]"
    by (simp only: r wd report_monthly_data adj snd_conv)
  have eff_close: "\<bar>?ae\<bar> < 10 ^ 6 \<longrightarrow>
      (\<forall>y \<in> r_efficiency_gain r. is_tenth y \<and> \<bar>y - ?ae\<bar> \<le> 1 / 20 + 1 / 10 ^ 7)"
    unfolding eff using round1_double_sound by blast
  have ann_close: "\<bar>?ap\<bar> < 10 ^ 6 \<longrightarrow>
      (\<forall>y \<in> r_annual_irradiance r. is_tenth y \<and> \<bar>y - ?ap\<bar> \<le> 1 / 20 + 1 / 10 ^ 7)"
    unfolding ann using round1_double_sound by blast
  show ?thesis
    unfolding Let_def by (intro conjI adj eff ann mon eff_close ann_close)
qed

theorem weather_adjustment_formulas_witness:
  "get_solar_data delhi_request cloudy_reply
     = Inr (solar_report delhi_request (Some cloudy_weather))
   \<and> r_weather_data (solar_report delhi_request (Some cloudy_weather)) = Some cloudy_weather
   \<and> weather_adjust (efficiency_gain (latitude delhi_request)) 1620 (Some cloudy_weather)
       = (9.9134, 1425.6)
   \<and> r_efficiency_gain (solar_report delhi_request (Some cloudy_weather)) = {9.9}
   \<and> r_annual_irradiance (solar_report delhi_request (Some cloudy_weather)) = {1425.6}"
proof -
  have present: "r_weather_data (solar_report delhi_request (Some cloudy_weather))
      = Some cloudy_weather"
    by (rule report_weather_data)
  have eff: "round1_double 9.9134 = {9.9}" and poa: "round1_double 1425.6 = {1425.6}"
    by (simp_all add: round1_double_def near_tie_def py_round1_def py_round_def Let_def)
  have efficiency: "r_efficiency_gain (solar_report delhi_request (Some cloudy_weather))
      = {9.9}"
    by (simp only: report_efficiency_gain delhi_poa delhi_adjust fst_conv eff)
  have annual: "r_annual_irradiance (solar_report delhi_request (Some cloudy_weather))
      = {1425.6}"
    by (simp only: report_annual_irradiance delhi_poa delhi_adjust snd_conv poa)
  show ?thesis
    using weather_adjustment_formulas [OF cloudy_request present]
    by (simp only: cloudy_request present delhi_adjust efficiency annual simp_thms)
qed

section \<open>Properties of the tips\<close>

lemma report_tips:
  "r_tips (solar_report request wd)
     = take 6 (build_tips (latitude request) (optimal_tilt (latitude request)) wd)"
  by (simp add: solar_report_def Let_def split: prod.splits)

lemma humidity_tip_distinct:
  "humidity_tip \<noteq> cloud_cover_tip c" "humidity_tip \<noteq> optimal_tilt_tip t"
  by (simp_all add: cloud_cover_tip_def optimal_tilt_tip_def humidity_tip_def)

text \<open>
  Claim C8.  For every request that succeeds, the returned list of tips has at most 6
  entries, and whenever the response carries weather data with cloud cover above 70, the
  cloud-cover tip is at index 0 of the returned list.
\<close>

theorem tips_bounded_and_cloud_tip_first:
  assumes "get_solar_data request outcome = Inr r"
  shows "length (r_tips r) \<le> 6
     \<and> (\<forall>w. r_weather_data r = Some w \<and> 70 < cloud_cover w
           \<longrightarrow> r_tips r ! 0 = cloud_cover_tip (cloud_cover w))"
proof -
  from assms obtain wd where r: "r = solar_report request wd"
    by (rule get_solar_data_cases)
  have "r_tips r ! 0 = cloud_cover_tip (cloud_cover w)"
    if "r_weather_data r = Some w" and "70 < cloud_cover w" for w
  proof -
    from that(1) have "wd = Some w"
      by (simp add: r report_weather_data)
    with that(2) show ?thesis
      by (simp add: r report_tips build_tips_def Let_def)
  qed
  then show ?thesis
    by (simp add: r report_tips)
qed

theorem tips_bounded_and_cloud_tip_first_witness:
  "get_solar_data delhi_request cloudy_reply
     = Inr (solar_report delhi_request (Some cloudy_weather))
   \<and> r_weather_data (solar_report delhi_request (Some cloudy_weather)) = Some cloudy_weather
   \<and> 70 < cloud_cover cloudy_weather
   \<and> length (r_tips (solar_report delhi_request (Some cloudy_weather))) \<le> 6
   \<and> r_tips (solar_report delhi_request (Some cloudy_weather)) ! 0
       = ''High cloud cover (80%) may reduce current efficiency''"
  using tips_bounded_and_cloud_tip_first [OF cloudy_request]
  by (simp add: cloudy_request report_weather_data cloudy_weather_def cloud_cover_tip_def
        str_int_def digits_of.simps)

text \<open>
  Claim C10.  For every request whose response carries weather data with cloud cover above
  70 and humidity above 80, the humidity tip, appended as the seventh entry behind the
  prepended cloud-cover tip, is not in the returned list of tips.
\<close>

theorem humidity_tip_truncated_away:
  assumes "get_solar_data request outcome = Inr r"
    and "r_weather_data r = Some w"
    and "70 < cloud_cover w" and "80 < humidity w"
  shows "humidity_tip \<notin> set (r_tips r)
     \<and> build_tips (latitude request) (optimal_tilt (latitude request)) (Some w) ! 6
         = humidity_tip
     \<and> length (r_tips r) = 6"
proof -
  from assms(1) obtain wd where r: "r = solar_report request wd"
    by (rule get_solar_data_cases)
  with assms(2) have wd: "wd = Some w"
    by (simp add: report_weather_data)
  show ?thesis
    using assms(3,4) unfolding r wd report_tips
    by (simp add: build_tips_def Let_def humidity_tip_distinct) (simp add: humidity_tip_def)
qed

theorem humidity_tip_truncated_away_witness:
  "get_solar_data delhi_request cloudy_reply
     = Inr (solar_report delhi_request (Some cloudy_weather))
   \<and> r_weather_data (solar_report delhi_request (Some cloudy_weather)) = Some cloudy_weather
   \<and> 70 < cloud_cover cloudy_weather \<and> 80 < humidity cloudy_weather
   \<and> humidity_tip \<notin> set (r_tips (solar_report delhi_request (Some cloudy_weather)))
   \<and> length (r_tips (solar_report delhi_request (Some cloudy_weather))) = 6"
proof -
  have present: "r_weather_data (solar_report delhi_request (Some cloudy_weather))
      = Some cloudy_weather"
    by (rule report_weather_data)
  have cloudy: "70 < cloud_cover cloudy_weather" and humid: "80 < humidity cloudy_weather"
    by (simp_all add: cloudy_weather_def)
  show ?thesis
    using humidity_tip_truncated_away [OF cloudy_request present cloudy humid]
    by (simp add: cloudy_request present cloudy humid)
qed

end
